theory Spec2Isabelle
  imports Complex_Main "HOL-Library.AList"
begin

section \<open>Python values and exceptions\<close>

text \<open>
  The drivers in \<^verbatim>\<open>TikTokApi/api/user.py\<close> and \<^verbatim>\<open>pytok/api/search.py\<close> work on
  whatever \<^verbatim>\<open>json.loads\<close> returns. A decoded value is \<open>None\<close>, a bool, an int, a
  float, a str, a list or a dict with string keys. A float is a rational or one of the
  three special values that \<^verbatim>\<open>json.loads\<close> accepts. A dict keeps its insertion order,
  so it is an association list.
\<close>

datatype pyfloat = Finite rat | NaN | PosInf | NegInf

datatype json =
    JNull
  | JBool bool
  | JInt int
  | JFloat pyfloat
  | JStr string
  | JList "json list"
  | JObj "(string \<times> json) list"

text \<open>
  The exceptions of \<^verbatim>\<open>pytok/exceptions.py\<close>, and the built-in ones the interpreter
  raises on the operations the drivers use. \<open>TypeError\<close> carries the message of an
  explicit \<^verbatim>\<open>raise TypeError(...)\<close>; where the interpreter raises it the message is
  not modelled and is the empty string.
\<close>

datatype error =
    TikTokException
  | CaptchaException
  | NotFoundException string
  | EmptyResponseException
  | SoundRemovedException
  | InvalidJSONException
  | NotAvailableException
  | NoContentException
  | TimeoutException
  | ApiFailedException
  | FewerVideosThanExpectedException
  | AccountPrivateException
  | TypeError string
  | KeyError
  | IndexError
  | AttributeError
  | ValueError
  | OverflowError
  | JSONDecodeError
  | UnboundLocalError
  | RequestException

text \<open>Sequencing of operations that may raise: the first exception wins.\<close>

definition bindE :: "error + 'a \<Rightarrow> ('a \<Rightarrow> error + 'b) \<Rightarrow> error + 'b" where
  "bindE m f = (case m of Inl e \<Rightarrow> Inl e | Inr x \<Rightarrow> f x)"

fun mapE :: "('a \<Rightarrow> error + 'b) \<Rightarrow> 'a list \<Rightarrow> error + 'b list" where
  "mapE f [] = Inr []"
| "mapE f (x # xs) = bindE (f x) (\<lambda>y. bindE (mapE f xs) (\<lambda>ys. Inr (y # ys)))"

text \<open>\<^verbatim>\<open>x[k]\<close> for a string key \<open>k\<close>: only a dict can be indexed by a string.\<close>

definition py_getitem :: "json \<Rightarrow> string \<Rightarrow> error + json" where
  "py_getitem x k =
     (case x of
        JObj kvs \<Rightarrow> (case map_of kvs k of None \<Rightarrow> Inl KeyError | Some v \<Rightarrow> Inr v)
      | _ \<Rightarrow> Inl (TypeError []))"

text \<open>
  \<^verbatim>\<open>x[key]\<close> where the key is itself a decoded value. In a dict a string is looked
  up, a list or a dict is unhashable, and anything else is no key of a decoded dict. A
  list or a string is indexed by an int (a bool counts as 0 or 1), a negative index
  counting from the end. Nothing else can be subscripted.
\<close>

definition py_index :: "'a list \<Rightarrow> int \<Rightarrow> error + 'a" where
  "py_index xs i =
     (if 0 \<le> i \<and> i < int (length xs) then Inr (xs ! nat i)
      else if i < 0 \<and> - int (length xs) \<le> i then Inr (xs ! nat (int (length xs) + i))
      else Inl IndexError)"

definition py_getitem_val :: "json \<Rightarrow> json \<Rightarrow> error + json" where
  "py_getitem_val x key =
     (case x of
        JObj kvs \<Rightarrow>
          (case key of
             JStr k \<Rightarrow> (case map_of kvs k of None \<Rightarrow> Inl KeyError | Some v \<Rightarrow> Inr v)
           | JList _ \<Rightarrow> Inl (TypeError [])
           | JObj _ \<Rightarrow> Inl (TypeError [])
           | _ \<Rightarrow> Inl KeyError)
      | JList xs \<Rightarrow>
          (case key of
             JInt i \<Rightarrow> py_index xs i
           | JBool b \<Rightarrow> py_index xs (if b then 1 else 0)
           | _ \<Rightarrow> Inl (TypeError []))
      | JStr s \<Rightarrow>
          (case key of
             JInt i \<Rightarrow> (case py_index s i of Inl e \<Rightarrow> Inl e | Inr c \<Rightarrow> Inr (JStr [c]))
           | JBool b \<Rightarrow>
               (case py_index s (if b then 1 else 0) of
                  Inl e \<Rightarrow> Inl e
                | Inr c \<Rightarrow> Inr (JStr [c]))
           | _ \<Rightarrow> Inl (TypeError []))
      | _ \<Rightarrow> Inl (TypeError []))"

text \<open>\<^verbatim>\<open>x.get(k, default)\<close>: only a dict has the method.\<close>

definition py_get :: "json \<Rightarrow> string \<Rightarrow> json \<Rightarrow> error + json" where
  "py_get x k dflt =
     (case x of
        JObj kvs \<Rightarrow> (case map_of kvs k of None \<Rightarrow> Inr dflt | Some v \<Rightarrow> Inr v)
      | _ \<Rightarrow> Inl AttributeError)"

text \<open>\<^verbatim>\<open>k not in x.keys()\<close>.\<close>

definition py_lacks_key :: "json \<Rightarrow> string \<Rightarrow> error + bool" where
  "py_lacks_key x k =
     (case x of
        JObj kvs \<Rightarrow> Inr (map_of kvs k = None)
      | _ \<Rightarrow> Inl AttributeError)"

text \<open>\<^verbatim>\<open>d[k] = v\<close> on a dict: an existing key keeps its place, a new one goes last.\<close>

definition py_setitem :: "json \<Rightarrow> string \<Rightarrow> json \<Rightarrow> error + json" where
  "py_setitem x k v =
     (case x of
        JObj kvs \<Rightarrow> Inr (JObj (AList.update k v kvs))
      | _ \<Rightarrow> Inl (TypeError []))"

text \<open>
  The items a \<^verbatim>\<open>for\<close> loop visits: the elements of a list, the keys of a dict,
  the characters of a string; nothing else is iterable. \<^verbatim>\<open>len\<close> counts the same
  items and fails on the same values.
\<close>

definition py_iter :: "json \<Rightarrow> error + json list" where
  "py_iter x =
     (case x of
        JList xs \<Rightarrow> Inr xs
      | JObj kvs \<Rightarrow> Inr (map (\<lambda>kv. JStr (fst kv)) kvs)
      | JStr s \<Rightarrow> Inr (map (\<lambda>c. JStr [c]) s)
      | _ \<Rightarrow> Inl (TypeError []))"

definition py_len :: "json \<Rightarrow> error + int" where
  "py_len x =
     (case x of
        JList xs \<Rightarrow> Inr (int (length xs))
      | JObj kvs \<Rightarrow> Inr (int (length kvs))
      | JStr s \<Rightarrow> Inr (int (length s))
      | _ \<Rightarrow> Inl (TypeError []))"

text \<open>\<^verbatim>\<open>[val for key, val in x.items()]\<close>.\<close>

definition py_values :: "json \<Rightarrow> error + json list" where
  "py_values x =
     (case x of
        JObj kvs \<Rightarrow> Inr (map snd kvs)
      | _ \<Rightarrow> Inl AttributeError)"

text \<open>Truth value of a decoded value, as \<^verbatim>\<open>if not x\<close> tests it.\<close>

definition py_truthy :: "json \<Rightarrow> bool" where
  "py_truthy x =
     (case x of
        JNull \<Rightarrow> False
      | JBool b \<Rightarrow> b
      | JInt i \<Rightarrow> i \<noteq> 0
      | JFloat f \<Rightarrow> f \<noteq> Finite 0
      | JStr s \<Rightarrow> s \<noteq> []
      | JList xs \<Rightarrow> xs \<noteq> []
      | JObj kvs \<Rightarrow> kvs \<noteq> [])"

text \<open>
  \<^verbatim>\<open>x == y\<close> on decoded values. Bools, ints and floats compare by value
  (\<^verbatim>\<open>False == 0\<close> and \<^verbatim>\<open>0.0 == 0\<close> hold, a NaN equals nothing); strings and
  \<open>None\<close> equal only themselves; lists compare element by element and dicts key by
  key, whatever the order of the keys.
\<close>

definition py_num :: "json \<Rightarrow> pyfloat option" where
  "py_num x =
     (case x of
        JBool b \<Rightarrow> Some (Finite (if b then 1 else 0))
      | JInt i \<Rightarrow> Some (Finite (of_int i))
      | JFloat f \<Rightarrow> Some f
      | _ \<Rightarrow> None)"

fun py_eq :: "json \<Rightarrow> json \<Rightarrow> bool" where
  "py_eq (JList xs) y = (case y of JList ys \<Rightarrow> list_all2 py_eq xs ys | _ \<Rightarrow> False)"
| "py_eq (JObj kvs) y =
     (case y of
        JObj kvs' \<Rightarrow>
          length kvs = length kvs' \<and>
          list_all (\<lambda>kv. case map_of kvs' (fst kv) of
                            None \<Rightarrow> False
                          | Some v' \<Rightarrow> py_eq (snd kv) v') kvs
      | _ \<Rightarrow> False)"
| "py_eq (JStr s) y = (y = JStr s)"
| "py_eq JNull y = (y = JNull)"
| "py_eq x y =
     (case (py_num x, py_num y) of
        (Some a, Some b) \<Rightarrow> a = b \<and> a \<noteq> NaN
      | _ \<Rightarrow> False)"

subsection \<open>\<^verbatim>\<open>int(x)\<close>\<close>

text \<open>
  \<^verbatim>\<open>int\<close> of a string reads a decimal literal: optional surrounding white space, an
  optional sign, digits with single underscores between them. A character of a string
  is a code point below 256. The white space \<^verbatim>\<open>int\<close> strips there is tab, line feed,
  vertical tab, form feed, carriage return and space, and the two code points above 127
  that it turns into spaces first (U+0085 and U+00A0); the only decimal digits are
  \<^verbatim>\<open>0\<close> to \<^verbatim>\<open>9\<close>. A literal with more digits than the interpreter's limit
  (4300 unless reconfigured) is refused.
\<close>

definition is_digit :: "char \<Rightarrow> bool" where
  "is_digit c = (48 \<le> (of_char c :: nat) \<and> (of_char c :: nat) \<le> 57)"

definition digit_val :: "char \<Rightarrow> int" where
  "digit_val c = int (of_char c) - 48"

definition is_space :: "char \<Rightarrow> bool" where
  "is_space c =
     (let n = (of_char c :: nat) in (9 \<le> n \<and> n \<le> 13) \<or> n = 32 \<or> n = 133 \<or> n = 160)"

definition int_max_str_digits :: nat where
  "int_max_str_digits = 4300"

fun digits_acc :: "int \<Rightarrow> string \<Rightarrow> int option" where
  "digits_acc a [] = Some a"
| "digits_acc a (c # cs) =
     (if is_digit c then digits_acc (10 * a + digit_val c) cs
      else if c = CHR ''_'' then
        (case cs of
           [] \<Rightarrow> None
         | d # ds \<Rightarrow> if is_digit d then digits_acc (10 * a + digit_val d) ds else None)
      else None)"

definition parse_digits :: "string \<Rightarrow> int option" where
  "parse_digits s =
     (case s of
        [] \<Rightarrow> None
      | c # cs \<Rightarrow>
          if is_digit c \<and> length (filter is_digit s) \<le> int_max_str_digits
          then digits_acc (digit_val c) cs else None)"

definition strip :: "string \<Rightarrow> string" where
  "strip s = rev (dropWhile is_space (rev (dropWhile is_space s)))"

definition parse_int :: "string \<Rightarrow> int option" where
  "parse_int s =
     (case strip s of
        [] \<Rightarrow> None
      | c # cs \<Rightarrow>
          if c = CHR ''-'' then map_option uminus (parse_digits cs)
          else if c = CHR ''+'' then parse_digits cs
          else parse_digits (c # cs))"

definition trunc_rat :: "rat \<Rightarrow> int" where
  "trunc_rat q = (if 0 \<le> q then \<lfloor>q\<rfloor> else \<lceil>q\<rceil>)"

definition py_int :: "json \<Rightarrow> error + int" where
  "py_int x =
     (case x of
        JStr s \<Rightarrow> (case parse_int s of None \<Rightarrow> Inl ValueError | Some i \<Rightarrow> Inr i)
      | JInt i \<Rightarrow> Inr i
      | JBool b \<Rightarrow> Inr (if b then 1 else 0)
      | JFloat (Finite q) \<Rightarrow> Inr (trunc_rat q)
      | JFloat NaN \<Rightarrow> Inl ValueError
      | JFloat _ \<Rightarrow> Inl OverflowError
      | _ \<Rightarrow> Inl (TypeError []))"

section \<open>Users, captured requests and the collaborators\<close>

text \<open>
  A \<^verbatim>\<open>User\<close> holds the three attributes the class declares
  (\<^verbatim>\<open>username\<close>, \<^verbatim>\<open>user_id\<close>, \<^verbatim>\<open>sec_uid\<close>). They are meant to be strings or
  \<open>None\<close>, but an attribute holds whatever is assigned to it, and
  \<^verbatim>\<open>__find_attributes\<close> assigns decoded values: each is a decoded value, \<open>JNull\<close>
  for \<open>None\<close>.
\<close>

record user =
  username :: json
  user_id :: json
  sec_uid :: json

text \<open>\<^verbatim>\<open>__update_id_sec_uid_username(id, sec_uid, username)\<close>.\<close>

definition update_id_sec_uid_username ::
  "user \<Rightarrow> json \<Rightarrow> json \<Rightarrow> json \<Rightarrow> user" where
  "update_id_sec_uid_username u i s n = u\<lparr>user_id := i, sec_uid := s, username := n\<rparr>"

text \<open>
  A request captured from the browser's traffic: its URL and the raw response that
  \<^verbatim>\<open>get_response_body\<close> reads.
\<close>

record request =
  url :: string
  raw :: string

text \<open>
  The entities the drivers yield wrap the raw item: \<^verbatim>\<open>User(data=result)\<close>,
  \<^verbatim>\<open>Video(data=result)\<close> and \<^verbatim>\<open>self.parent.video(data=video)\<close>.
\<close>

datatype entity = UserEntity json | VideoEntity json

text \<open>What a run does to the browser, the network and the logger, in order.\<close>

datatype event =
    Goto string
  | WaitForContent string
  | GetRequests string
  | ScrollToBottom
  | SlightScrollUp
  | WaitNotSkeleton string
  | RequestDelay
  | LogInfo string
  | LogError string
  | GetData json
  | SearchUsers json
  | HttpGet string

text \<open>
  The collaborators are outside the three files: the JSON decoder, the tag-content
  extractor, the browser's capture buffer and the waiters of the base class, the data
  fetch of the client, the search used for resolution, and the HTTP fetch. Each is a
  field of the environment. \<open>get_requests env k path\<close> is what the \<open>k\<close>-th call of a
  run (counted from 0) returns for \<open>path\<close>; \<open>wait_until_not_skeleton_or_captcha env k\<close>
  and \<open>get_data env k\<close> are indexed the same way; a waiter returns the exception it
  raises, if any. \<open>search_users env name\<close> is the sequence the search generator yields,
  and the exception that ends it, if any. \<open>format_value env v\<close> is the text \<^verbatim>\<open>str\<close>
  gives a number, a list or a dict, or the exception it raises.
\<close>

record env =
  json_loads :: "string \<Rightarrow> json option"
  extract_tag_contents :: "string \<Rightarrow> error + string"
  get_response_body :: "request \<Rightarrow> error + string"
  wait_for_content_or_captcha :: "string \<Rightarrow> error option"
  get_requests :: "nat \<Rightarrow> string \<Rightarrow> request list"
  wait_until_not_skeleton_or_captcha :: "nat \<Rightarrow> error option"
  get_data :: "nat \<Rightarrow> error + json"
  search_users :: "json \<Rightarrow> user list \<times> error option"
  quote :: "string \<Rightarrow> string"
  requests_get :: "string \<Rightarrow> error + string"
  format_value :: "json \<Rightarrow> error + string"

text \<open>\<^verbatim>\<open>json.loads(s)\<close>: a text that does not decode raises \<open>JSONDecodeError\<close>.\<close>

definition loads :: "env \<Rightarrow> string \<Rightarrow> error + json" where
  "loads env s = (case json_loads env s of None \<Rightarrow> Inl JSONDecodeError | Some v \<Rightarrow> Inr v)"

text \<open>
  \<^verbatim>\<open>f"{x}"\<close>: a string is inserted as it is, \<open>None\<close> and the bools by their names.
\<close>

definition py_str :: "env \<Rightarrow> json \<Rightarrow> error + string" where
  "py_str env x =
     (case x of
        JStr s \<Rightarrow> Inr s
      | JNull \<Rightarrow> Inr ''None''
      | JBool b \<Rightarrow> Inr (if b then ''True'' else ''False'')
      | _ \<Rightarrow> format_value env x)"

text \<open>
  The state of a pagination run: the counter, the URLs recorded so far
  (\<^verbatim>\<open>searched_urls\<close>, \<^verbatim>\<open>processed_urls\<close>), the entities yielded so far and the
  events so far.
\<close>

record pstate =
  amount_yielded :: int
  urls :: "string list"
  yielded :: "entity list"
  events :: "event list"

definition init_state :: "event list \<Rightarrow> pstate" where
  "init_state evs = \<lparr>amount_yielded = 0, urls = [], yielded = [], events = evs\<rparr>"

definition log :: "event list \<Rightarrow> pstate \<Rightarrow> pstate" where
  "log evs s = s\<lparr>events := events s @ evs\<rparr>"

text \<open>
  How the body of a \<^verbatim>\<open>for\<close> loop ends: it goes on to the next request, the
  generator returns, or an exception leaves it. How a run ends: the \<^verbatim>\<open>while\<close>
  condition fails, a \<^verbatim>\<open>return\<close> is reached, or an exception is raised.
\<close>

datatype flow = Normal pstate | Returned pstate | Raised error pstate

datatype outcome = LoopExit | EarlyReturn | Exception error

fun flow_state :: "flow \<Rightarrow> pstate" where
  "flow_state (Normal s) = s"
| "flow_state (Returned s) = s"
| "flow_state (Raised e s) = s"

section \<open>\<^verbatim>\<open>User.info_full\<close>, \<^verbatim>\<open>User.info\<close> and \<^verbatim>\<open>User.__find_attributes\<close>\<close>

definition not_found_message :: "string \<Rightarrow> string" where
  "not_found_message name = ''TikTok user with username '' @ name @ '' does not exist''"

definition profile_url :: "env \<Rightarrow> string \<Rightarrow> string" where
  "profile_url env name = ''https://tiktok.com/@'' @ quote env name @ ''?lang=en''"

text \<open>
  \<^verbatim>\<open>info_full\<close>. A username that is false (\<open>None\<close>, the empty string, ...) is
  refused; \<^verbatim>\<open>quote\<close> takes a string and raises \<open>TypeError\<close> on any other decoded
  value.
\<close>

definition info_full :: "env \<Rightarrow> user \<Rightarrow> (error + json) \<times> event list" where
  "info_full env u =
     (if \<not> py_truthy (username u) then
        (Inl (TypeError
           ''You must provide the username when creating this class to use this method.''), [])
      else
        (case username u of
           JStr name \<Rightarrow>
             (bindE (requests_get env (profile_url env name)) (\<lambda>text.
              bindE (extract_tag_contents env text) (\<lambda>data.
              bindE (loads env data) (\<lambda>user.
              bindE (py_getitem user ''props'') (\<lambda>props.
              bindE (py_getitem props ''pageProps'') (\<lambda>user_props.
              bindE (py_getitem user_props ''statusCode'') (\<lambda>status.
                if py_eq status (JInt 404)
                then Inl (NotFoundException (not_found_message name))
                else py_getitem user_props ''userInfo'')))))),
              [HttpGet (profile_url env name)])
         | _ \<Rightarrow> (Inl (TypeError []), [])))"

definition info :: "env \<Rightarrow> user \<Rightarrow> (error + json) \<times> event list" where
  "info env u =
     (case info_full env u of
        (r, evs) \<Rightarrow> (bindE r (\<lambda>full. py_getitem full ''user''), evs))"

text \<open>
  \<^verbatim>\<open>__find_attributes\<close>: the loop over the search results stops at the first user
  whose username equals this one's; the generator's exception, if it has one, is met
  only when no result matched; \<^verbatim>\<open>self.info()\<close> runs only when nothing was found,
  and its three values are stored as they are.
\<close>

definition find_attributes :: "env \<Rightarrow> user \<Rightarrow> (error + user) \<times> event list" where
  "find_attributes env u =
     (case search_users env (username u) of
        (results, failure) \<Rightarrow>
          (case find (\<lambda>x. py_eq (username x) (username u)) results of
             Some x \<Rightarrow>
               (Inr (update_id_sec_uid_username u (user_id x) (sec_uid x) (username x)),
                [SearchUsers (username u)])
           | None \<Rightarrow>
               (case failure of
                  Some e \<Rightarrow> (Inl e, [SearchUsers (username u)])
                | None \<Rightarrow>
                    (case info env u of
                       (r, evs) \<Rightarrow>
                         (bindE r (\<lambda>user_object.
                          bindE (py_getitem user_object ''id'') (\<lambda>i.
                          bindE (py_getitem user_object ''secUid'') (\<lambda>s.
                          bindE (py_getitem user_object ''uniqueId'') (\<lambda>n.
                            Inr (update_id_sec_uid_username u i s n))))),
                          SearchUsers (username u) # evs)))))"

section \<open>\<^verbatim>\<open>User.videos\<close>\<close>

text \<open>
  \<^verbatim>\<open>res["UserModule"]["users"][author_name][field]\<close>, evaluated anew for each field
  as the source writes it.
\<close>

definition users_field :: "json \<Rightarrow> json \<Rightarrow> string \<Rightarrow> error + json" where
  "users_field res author_name field =
     bindE (py_getitem res ''UserModule'') (\<lambda>user_module.
     bindE (py_getitem user_module ''users'') (\<lambda>users.
     bindE (py_getitem_val users author_name) (\<lambda>entry.
       py_getitem entry field)))"

text \<open>
  The body of the loop over the first page's videos: the creation time becomes an int
  and the author's name is replaced by an author object, whose fields are read in the
  order of the dict display.
\<close>

definition normalize_video :: "json \<Rightarrow> json \<Rightarrow> error + json" where
  "normalize_video res video0 =
     bindE (py_getitem video0 ''createTime'') (\<lambda>created.
     bindE (py_int created) (\<lambda>t.
     bindE (py_setitem video0 ''createTime'' (JInt t)) (\<lambda>video.
     bindE (py_getitem video ''author'') (\<lambda>author_name.
     bindE (py_getitem video ''authorId'') (\<lambda>author_id.
     bindE (py_getitem video ''nickname'') (\<lambda>nickname.
     bindE (py_getitem video ''avatarThumb'') (\<lambda>avatar_thumb.
     bindE (users_field res author_name ''signature'') (\<lambda>signature.
     bindE (users_field res author_name ''verified'') (\<lambda>verified.
     bindE (py_getitem video ''authorSecId'') (\<lambda>sec.
     bindE (users_field res author_name ''secret'') (\<lambda>secret.
     bindE (users_field res author_name ''ftc'') (\<lambda>ftc.
     bindE (users_field res author_name ''relation'') (\<lambda>relation.
     bindE (users_field res author_name ''openFavorite'') (\<lambda>open_favorite.
     bindE (users_field res author_name ''commentSetting'') (\<lambda>comment_setting.
     bindE (users_field res author_name ''duetSetting'') (\<lambda>duet_setting.
     bindE (users_field res author_name ''stitchSetting'') (\<lambda>stitch_setting.
     bindE (users_field res author_name ''privateAccount'') (\<lambda>private_account.
       py_setitem video ''author''
         (JObj [(''id'', author_id),
                (''uniqueId'', author_name),
                (''nickname'', nickname),
                (''avatarThumb'', avatar_thumb),
                (''signature'', signature),
                (''verified'', verified),
                (''secUid'', sec),
                (''secret'', secret),
                (''ftc'', ftc),
                (''relation'', relation),
                (''openFavorite'', open_favorite),
                (''commentSetting'', comment_setting),
                (''duetSetting'', duet_setting),
                (''stitchSetting'', stitch_setting),
                (''privateAccount'', private_account)])))))))))))))))))))"

text \<open>The videos of the first page: the values of \<^verbatim>\<open>res['ItemModule']\<close>, normalized.\<close>

definition first_page_videos :: "json \<Rightarrow> error + json" where
  "first_page_videos res =
     bindE (py_getitem res ''ItemModule'') (\<lambda>item_module.
     bindE (py_values item_module) (\<lambda>videos.
     bindE (mapE (normalize_video res) videos) (\<lambda>normalized.
       Inr (JList normalized))))"

text \<open>
  The has-more flag: \<^verbatim>\<open>res['ItemList']['user-post']['hasMore']\<close> on the first page,
  \<^verbatim>\<open>res.get("hasMore", False)\<close> afterwards.
\<close>

definition videos_has_more :: "nat \<Rightarrow> json \<Rightarrow> error + json" where
  "videos_has_more request_num res =
     (if request_num = 1 then
        bindE (py_getitem res ''ItemList'') (\<lambda>item_list.
        bindE (py_getitem item_list ''user-post'') (\<lambda>user_post.
          py_getitem user_post ''hasMore''))
      else py_get res ''hasMore'' (JBool False))"

text \<open>
  Lines 195 to 208: the counter grows by \<^verbatim>\<open>len(videos)\<close>, every video is yielded,
  and the generator returns when the flag is false.
\<close>

definition videos_emit :: "nat \<Rightarrow> json \<Rightarrow> json \<Rightarrow> pstate \<Rightarrow> flow" where
  "videos_emit request_num res videos s =
     (case py_len videos of
        Inl e \<Rightarrow> Raised e s
      | Inr n \<Rightarrow>
          (case py_iter videos of
             Inl e \<Rightarrow> Raised e (s\<lparr>amount_yielded := amount_yielded s + n\<rparr>)
           | Inr vs \<Rightarrow>
               (let s' = s\<lparr>amount_yielded := amount_yielded s + n,
                            yielded := yielded s @ map VideoEntity vs\<rparr>
                in case videos_has_more request_num res of
                     Inl e \<Rightarrow> Raised e s'
                   | Inr has_more \<Rightarrow>
                       if \<not> py_truthy has_more then
                         Returned (log
                           [LogInfo ''TikTok isn't sending more TikToks beyond this point.''] s')
                       else Normal s')))"

text \<open>
  The body of \<^verbatim>\<open>for request in search_requests\<close>. \<^verbatim>\<open>request_num\<close> starts at 1
  and only grows; with neither branch taken \<^verbatim>\<open>videos\<close> would be unbound.
\<close>

definition videos_request :: "env \<Rightarrow> nat \<Rightarrow> request \<Rightarrow> pstate \<Rightarrow> flow" where
  "videos_request env request_num request s0 =
     (let s = s0\<lparr>urls := urls s0 @ [url request]\<rparr> in
      case get_response_body env request of
        Inl e \<Rightarrow> Raised e s
      | Inr body \<Rightarrow>
          if request_num = 1 then
            (case bindE (extract_tag_contents env body) (loads env) of
               Inl e \<Rightarrow> Raised e s
             | Inr res \<Rightarrow>
                 (case first_page_videos res of
                    Inl e \<Rightarrow> Raised e s
                  | Inr videos \<Rightarrow> videos_emit request_num res videos s))
          else if request_num > 1 then
            (case loads env body of
               Inl e \<Rightarrow> Raised e s
             | Inr res \<Rightarrow>
                 (case py_get res ''type'' JNull of
                    Inl e \<Rightarrow> Raised e s
                  | Inr ty \<Rightarrow>
                      if py_eq ty (JStr ''verify'') then Normal s
                      else
                        (case py_get res ''itemList'' (JList []) of
                           Inl e \<Rightarrow> Raised e s
                         | Inr videos \<Rightarrow> videos_emit request_num res videos s)))
          else Raised UnboundLocalError s)"

fun videos_for :: "env \<Rightarrow> nat \<Rightarrow> request list \<Rightarrow> pstate \<Rightarrow> flow" where
  "videos_for env request_num [] s = Normal s"
| "videos_for env request_num (r # rs) s =
     (case videos_request env request_num r s of
        Normal s' \<Rightarrow> videos_for env request_num rs s'
      | Returned s' \<Rightarrow> Returned s'
      | Raised e s' \<Rightarrow> Raised e s')"

definition videos_path :: "env \<Rightarrow> user \<Rightarrow> nat \<Rightarrow> error + string" where
  "videos_path env u request_num =
     (if request_num = 1 then bindE (py_str env (username u)) (\<lambda>name. Inr (''@'' @ name))
      else Inr ''api/post/item_list'')"

text \<open>
  The \<^verbatim>\<open>while\<close> loop. The first argument bounds the number of iterations: the loop
  has no bound of its own, and \<open>None\<close> says the bound was too small. The call of
  \<^verbatim>\<open>get_requests\<close> in the iteration with request number \<open>n\<close> is the run's call
  number \<open>n - 1\<close>.
\<close>

fun videos_while ::
  "nat \<Rightarrow> env \<Rightarrow> user \<Rightarrow> int \<Rightarrow> nat \<Rightarrow> pstate \<Rightarrow> (pstate \<times> outcome) option" where
  "videos_while 0 env u count request_num s = None"
| "videos_while (Suc fuel) env u count request_num s =
     (if amount_yielded s < count then
        (if request_num = 0 then Some (s, Exception UnboundLocalError)
         else
           (case videos_path env u request_num of
              Inl e \<Rightarrow> Some (s, Exception e)
            | Inr path \<Rightarrow>
                (case videos_for env request_num (get_requests env (request_num - 1) path)
                        (log [GetRequests path] s) of
                   Returned s' \<Rightarrow> Some (s', EarlyReturn)
                 | Raised e s' \<Rightarrow> Some (s', Exception e)
                 | Normal s' \<Rightarrow>
                     (case wait_until_not_skeleton_or_captcha env (request_num - 1) of
                        Some e \<Rightarrow>
                          Some (log [ScrollToBottom,
                                     WaitNotSkeleton ''video-skeleton-container''] s',
                                Exception e)
                      | None \<Rightarrow>
                          videos_while fuel env u count (request_num + 1)
                            (log [ScrollToBottom, WaitNotSkeleton ''video-skeleton-container'',
                                  RequestDelay] s')))))
      else Some (s, LoopExit))"

definition videos :: "nat \<Rightarrow> env \<Rightarrow> user \<Rightarrow> int \<Rightarrow> (pstate \<times> outcome) option" where
  "videos fuel env u count =
     (case py_str env (username u) of
        Inl e \<Rightarrow> Some (init_state [], Exception e)
      | Inr name \<Rightarrow>
          (let s = init_state [Goto (''https://www.tiktok.com/@'' @ name),
                               WaitForContent ''user-post-item'']
           in case wait_for_content_or_captcha env ''user-post-item'' of
                Some e \<Rightarrow> Some (s, Exception e)
              | None \<Rightarrow> videos_while fuel env u count 1 s))"

section \<open>\<^verbatim>\<open>User.liked\<close>\<close>

text \<open>
  The \<^verbatim>\<open>while\<close> loop of \<^verbatim>\<open>liked\<close>. The query and the path are built from the
  cursor and the user's identifiers and handed to \<^verbatim>\<open>get_data\<close>; the event keeps
  the cursor, and \<open>k\<close> counts the calls. The counter grows by \<^verbatim>\<open>len(videos)\<close> and
  then by one more for each video yielded.
\<close>

fun liked_while ::
  "nat \<Rightarrow> env \<Rightarrow> int \<Rightarrow> json \<Rightarrow> bool \<Rightarrow> nat \<Rightarrow> pstate \<Rightarrow> (pstate \<times> outcome) option" where
  "liked_while 0 env count cursor first k s = None"
| "liked_while (Suc fuel) env count cursor first k s =
     (if amount_yielded s < count then
        (let s1 = log [GetData cursor] s in
         case get_data env k of
           Inl e \<Rightarrow> Some (s1, Exception e)
         | Inr res \<Rightarrow>
             (case py_lacks_key res ''itemList'' of
                Inl e \<Rightarrow> Some (s1, Exception e)
              | Inr True \<Rightarrow>
                  Some (if first then log [LogError ''User's likes are most likely private''] s1
                        else s1,
                        EarlyReturn)
              | Inr False \<Rightarrow>
                  (case bindE (py_get res ''itemList'' (JList [])) (\<lambda>videos.
                        bindE (py_len videos) (\<lambda>n.
                        bindE (py_iter videos) (\<lambda>vs. Inr (n, vs)))) of
                     Inl e \<Rightarrow> Some (s1, Exception e)
                   | Inr (n, vs) \<Rightarrow>
                       (let s2 = s1\<lparr>amount_yielded := amount_yielded s1 + n + int (length vs),
                                    yielded := yielded s1 @ map VideoEntity vs\<rparr>
                        in case py_get res ''hasMore'' (JBool False) of
                             Inl e \<Rightarrow> Some (s2, Exception e)
                           | Inr has_more \<Rightarrow>
                               if \<not> py_truthy has_more \<and> \<not> first then
                                 Some (log [LogInfo
                                   ''TikTok isn't sending more TikToks beyond this point.''] s2,
                                   EarlyReturn)
                               else
                                 (case py_getitem res ''cursor'' of
                                    Inl e \<Rightarrow> Some (s2, Exception e)
                                  | Inr cursor' \<Rightarrow>
                                      liked_while fuel env count cursor' False (Suc k) s2)))))
      else Some (s, LoopExit))"

text \<open>
  \<^verbatim>\<open>liked\<close>: the identifiers are resolved first, and only when both are \<open>None\<close>.
\<close>

definition liked :: "nat \<Rightarrow> env \<Rightarrow> user \<Rightarrow> int \<Rightarrow> json \<Rightarrow> (pstate \<times> outcome) option" where
  "liked fuel env u count cursor =
     (if user_id u = JNull \<and> sec_uid u = JNull then
        (case find_attributes env u of
           (Inl e, evs) \<Rightarrow> Some (init_state evs, Exception e)
         | (Inr u', evs) \<Rightarrow> liked_while fuel env count cursor True 0 (init_state evs))
      else liked_while fuel env count cursor True 0 (init_state []))"

section \<open>\<^verbatim>\<open>Search.search_type\<close>\<close>

text \<open>
  One of the two loops over the results of a response: the results are read with
  \<^verbatim>\<open>res.get(key, [])\<close>, each is yielded and counted.
\<close>

definition search_emit :: "(json \<Rightarrow> entity) \<Rightarrow> string \<Rightarrow> json \<Rightarrow> pstate \<Rightarrow> flow" where
  "search_emit mk key res s =
     (case bindE (py_get res key (JList [])) py_iter of
        Inl e \<Rightarrow> Raised e s
      | Inr results \<Rightarrow>
          Normal (s\<lparr>amount_yielded := amount_yielded s + int (length results),
                    yielded := yielded s @ map mk results\<rparr>))"

text \<open>
  The body of \<^verbatim>\<open>for request in search_requests\<close>. Only the decoding error is
  caught; any other exception inside the \<^verbatim>\<open>try\<close> leaves the generator.
\<close>

definition search_request :: "env \<Rightarrow> string \<Rightarrow> request \<Rightarrow> pstate \<Rightarrow> flow" where
  "search_request env obj_type request s0 =
     (let s = s0\<lparr>urls := urls s0 @ [url request]\<rparr> in
      case get_response_body env request of
        Inl e \<Rightarrow> Raised e s
      | Inr body \<Rightarrow>
          (case json_loads env body of
             None \<Rightarrow> Normal s
           | Some res \<Rightarrow>
               (case py_get res ''type'' JNull of
                  Inl e \<Rightarrow> Raised e s
                | Inr ty \<Rightarrow>
                    if py_eq ty (JStr ''verify'') then Normal s
                    else
                      (case (if obj_type = ''user'' then search_emit UserEntity ''user_list'' res s
                             else Normal s) of
                         Normal s1 \<Rightarrow>
                           (case (if obj_type = ''item''
                                  then search_emit VideoEntity ''item_list'' res s1
                                  else Normal s1) of
                              Normal s2 \<Rightarrow>
                                (case py_get res ''has_more'' (JInt 0) of
                                   Inl e \<Rightarrow> Raised e s2
                                 | Inr has_more \<Rightarrow>
                                     if py_eq has_more (JInt 0) then
                                       Returned (log
                                         [LogInfo
                                            ''TikTok is not sending videos beyond this point.'']
                                         s2)
                                     else Normal s2)
                            | other \<Rightarrow> other)
                       | other \<Rightarrow> other))))"

fun search_for :: "env \<Rightarrow> string \<Rightarrow> request list \<Rightarrow> pstate \<Rightarrow> flow" where
  "search_for env obj_type [] s = Normal s"
| "search_for env obj_type (r # rs) s =
     (case search_request env obj_type r s of
        Normal s' \<Rightarrow> search_for env obj_type rs s'
      | Returned s' \<Rightarrow> Returned s'
      | Raised e s' \<Rightarrow> Raised e s')"

text \<open>
  The \<^verbatim>\<open>while\<close> loop, bounded like the one of \<^verbatim>\<open>videos\<close>; \<open>k\<close> counts the
  iterations. \<^verbatim>\<open>pull_method\<close> is \<^verbatim>\<open>'browser'\<close> throughout: its only assignment
  inside the loop stands in the \<^verbatim>\<open>'requests'\<close> branch, which is therefore never
  entered and is left out.
\<close>

fun search_while ::
  "nat \<Rightarrow> env \<Rightarrow> string \<Rightarrow> int \<Rightarrow> nat \<Rightarrow> pstate \<Rightarrow> (pstate \<times> outcome) option" where
  "search_while 0 env obj_type count k s = None"
| "search_while (Suc fuel) env obj_type count k s =
     (if amount_yielded s < count then
        (case search_for env obj_type
                (filter (\<lambda>request. url request \<notin> set (urls s))
                   (get_requests env k (''api/search/'' @ obj_type)))
                (log [RequestDelay, GetRequests (''api/search/'' @ obj_type)] s) of
           Returned s' \<Rightarrow> Some (s', EarlyReturn)
         | Raised e s' \<Rightarrow> Some (s', Exception e)
         | Normal s' \<Rightarrow>
             (let s'' = log [RequestDelay, SlightScrollUp, RequestDelay, ScrollToBottom,
                            WaitNotSkeleton ''video-skeleton-container''] s'
              in case wait_until_not_skeleton_or_captcha env k of
                   Some e \<Rightarrow> Some (s'', Exception e)
                 | None \<Rightarrow> search_while fuel env obj_type count (Suc k) s''))
      else Some (s, LoopExit))"

definition search_type ::
  "nat \<Rightarrow> env \<Rightarrow> string \<Rightarrow> string \<Rightarrow> int \<Rightarrow> (pstate \<times> outcome) option" where
  "search_type fuel env search_term obj_type count =
     (if obj_type = ''user'' \<or> obj_type = ''item'' then
        (let subpath = (if obj_type = ''user'' then ''user'' else ''video'');
             s = init_state
                   [Goto (''https://www.tiktok.com/search/'' @ subpath @ ''?q='' @ search_term),
                    WaitForContent ''[data-e2e='search_video-item-list']'']
         in case wait_for_content_or_captcha env ''[data-e2e='search_video-item-list']'' of
              Some e \<Rightarrow> Some (s, Exception e)
            | None \<Rightarrow> search_while fuel env obj_type count 0 s)
      else Some (init_state [], Exception (TypeError ''invalid obj_type'')))"

section \<open>Responses that signal the end\<close>



section \<open>Example inputs\<close>

text \<open>
  Concrete inputs for the runs evaluated below: a users-map entry and a raw video of the
  first page, the bootstrap data around them, a decoder for a handful of response texts
  (every other text fails to decode), and an environment whose capture buffer and
  waiter are given per call. In it \<^verbatim>\<open>get_response_body\<close> fails on an empty body and
  returns any other body as it is. The users of the examples have strings for names,
  so \<open>format_value\<close> is never consulted there.
\<close>

definition alice_entry :: json where
  "alice_entry = JObj
     [(''signature'', JStr ''hello''), (''verified'', JBool True), (''secret'', JBool False),
      (''ftc'', JBool False), (''relation'', JInt 0), (''openFavorite'', JBool False),
      (''commentSetting'', JInt 0), (''duetSetting'', JInt 0), (''stitchSetting'', JInt 0),
      (''privateAccount'', JBool False)]"

definition alice_video :: json where
  "alice_video = JObj
     [(''id'', JStr ''7''), (''createTime'', JStr ''1690000000''), (''author'', JStr ''alice''),
      (''authorId'', JStr ''1''), (''nickname'', JStr ''Alice''),
      (''avatarThumb'', JStr ''a.jpg''), (''authorSecId'', JStr ''MS4w'')]"

definition alice_author :: json where
  "alice_author = JObj
     [(''id'', JStr ''1''), (''uniqueId'', JStr ''alice''), (''nickname'', JStr ''Alice''),
      (''avatarThumb'', JStr ''a.jpg''), (''signature'', JStr ''hello''),
      (''verified'', JBool True), (''secUid'', JStr ''MS4w''), (''secret'', JBool False),
      (''ftc'', JBool False), (''relation'', JInt 0), (''openFavorite'', JBool False),
      (''commentSetting'', JInt 0), (''duetSetting'', JInt 0), (''stitchSetting'', JInt 0),
      (''privateAccount'', JBool False)]"

definition alice_normalized :: json where
  "alice_normalized = JObj
     [(''id'', JStr ''7''), (''createTime'', JInt 1690000000), (''author'', alice_author),
      (''authorId'', JStr ''1''), (''nickname'', JStr ''Alice''),
      (''avatarThumb'', JStr ''a.jpg''), (''authorSecId'', JStr ''MS4w'')]"

definition bootstrap :: "(string \<times> json) list \<Rightarrow> bool \<Rightarrow> json" where
  "bootstrap extra has_more = JObj
     (extra @
      [(''ItemModule'', JObj [(''7'', alice_video)]),
       (''UserModule'', JObj [(''users'', JObj [(''alice'', alice_entry)])]),
       (''ItemList'', JObj [(''user-post'', JObj [(''hasMore'', JBool has_more)])])])"

definition video8 :: json where
  "video8 = JObj [(''id'', JStr ''8'')]"

definition bob :: json where
  "bob = JObj [(''uniqueId'', JStr ''bob'')]"

definition example_loads :: "string \<Rightarrow> json option" where
  "example_loads s =
     (if s = ''first'' then Some (bootstrap [] True)
      else if s = ''first-verify'' then Some (bootstrap [(''type'', JStr ''verify'')] False)
      else if s = ''page'' then Some (JObj [(''itemList'', JList [video8]), (''hasMore'', JBool True)])
      else if s = ''page-open'' then Some (JObj [(''itemList'', JList [video8])])
      else if s = ''verify'' then Some (JObj [(''type'', JStr ''verify'')])
      else if s = ''verify-0'' then
        Some (JObj [(''type'', JStr ''verify''), (''has_more'', JInt 0)])
      else if s = ''users'' then Some (JObj [(''user_list'', JList [bob]), (''has_more'', JInt 1)])
      else if s = ''users-last'' then
        Some (JObj [(''user_list'', JList [bob]), (''has_more'', JInt 0)])
      else if s = ''users-open'' then Some (JObj [(''user_list'', JList [bob])])
      else if s = ''profile'' then
        Some (JObj [(''props'', JObj [(''pageProps'',
                JObj [(''statusCode'', JInt 0),
                      (''userInfo'', JObj [(''user'',
                         JObj [(''id'', JStr ''1''), (''secUid'', JStr ''MS4w''),
                               (''uniqueId'', JStr ''alice'')])])])])])
      else if s = ''missing'' then
        Some (JObj [(''props'', JObj [(''pageProps'', JObj [(''statusCode'', JInt 404)])])])
      else None)"

definition req :: "string \<Rightarrow> string \<Rightarrow> request" where
  "req u b = \<lparr>url = u, raw = b\<rparr>"

definition example_env :: "(nat \<Rightarrow> request list) \<Rightarrow> (nat \<Rightarrow> error option) \<Rightarrow> env" where
  "example_env captured waits =
     \<lparr>json_loads = example_loads,
      extract_tag_contents = Inr,
      get_response_body = (\<lambda>r. if raw r = [] then Inl EmptyResponseException else Inr (raw r)),
      wait_for_content_or_captcha = (\<lambda>selector. None),
      get_requests = (\<lambda>k path. captured k),
      wait_until_not_skeleton_or_captcha = waits,
      get_data = (\<lambda>k. if k = 0 then Inr (JObj [(''statusCode'', JInt 0)])
                       else Inl ApiFailedException),
      search_users = (\<lambda>name. ([], None)),
      quote = (\<lambda>s. s),
      requests_get = (\<lambda>u. if u = ''https://tiktok.com/@alice?lang=en'' then Inr ''profile''
                            else if u = ''https://tiktok.com/@nobody?lang=en'' then Inr ''missing''
                            else Inl RequestException),
      format_value = (\<lambda>v. Inl ValueError)\<rparr>"

definition alice :: user where
  "alice = \<lparr>username = JStr ''alice'', user_id = JNull, sec_uid = JNull\<rparr>"

definition no_wait_error :: "nat \<Rightarrow> error option" where
  "no_wait_error k = None"

definition bob_user :: user where
  "bob_user = \<lparr>username = JStr ''bob'', user_id = JStr ''2'', sec_uid = JStr ''MS4x''\<rparr>"

definition alice_found :: user where
  "alice_found =
     \<lparr>username = JStr ''alice'', user_id = JStr ''1'', sec_uid = JStr ''MS4w''\<rparr>"

definition nobody :: user where
  "nobody = \<lparr>username = JStr ''nobody'', user_id = JNull, sec_uid = JNull\<rparr>"

definition alice_info :: json where
  "alice_info = JObj [(''user'', JObj [(''id'', JStr ''1''), (''secUid'', JStr ''MS4w''),
                                       (''uniqueId'', JStr ''alice'')])]"

text \<open>An environment whose search yields the given users and then ends.\<close>

definition search_env :: "user list \<Rightarrow> env" where
  "search_env results =
     (example_env (\<lambda>k. []) no_wait_error)\<lparr>search_users := (\<lambda>name. (results, None))\<rparr>"

text \<open>A capture buffer given as the list of what each call returns, and a waiter that fails once.\<close>

definition capture_by_call :: "request list list \<Rightarrow> nat \<Rightarrow> request list" where
  "capture_by_call batches k = (if k < length batches then batches ! k else [])"

definition wait_error_at :: "nat \<Rightarrow> error \<Rightarrow> nat \<Rightarrow> error option" where
  "wait_error_at n e k = (if k = n then Some e else None)"

text \<open>A page of liked videos with one video and more to come, returned to every request.\<close>

definition liked_page :: json where
  "liked_page = JObj [(''itemList'', JList [video8]), (''hasMore'', JBool True),
                      (''cursor'', JInt 1)]"

definition liked_env :: env where
  "liked_env = (example_env (\<lambda>k. []) no_wait_error)\<lparr>get_data := (\<lambda>k. Inr liked_page)\<rparr>"

text \<open>The selector the search waits for, and the messages logged when a run stops.\<close>

definition search_selector :: string where
  "search_selector = ''[data-e2e='search_video-item-list']''"

definition no_more_tiktoks :: string where
  "no_more_tiktoks = ''TikTok isn't sending more TikToks beyond this point.''"

definition no_more_videos :: string where
  "no_more_videos = ''TikTok is not sending videos beyond this point.''"

section \<open>Basic facts\<close>

lemma bindE_Inl [simp]: "bindE (Inl e) f = Inl e"
  by (simp add: bindE_def)

lemma bindE_Inr [simp]: "bindE (Inr x) f = f x"
  by (simp add: bindE_def)

lemma py_eq_JStr [simp]: "py_eq x (JStr s) = (x = JStr s)"
  by (cases x) (auto simp: py_num_def)

lemma py_getitem_JObj [simp]:
  "py_getitem (JObj kvs) k = (case map_of kvs k of None \<Rightarrow> Inl KeyError | Some v \<Rightarrow> Inr v)"
  by (simp add: py_getitem_def)



section \<open>Normalization of a first-page video\<close>



section \<open>Profile information and attribute resolution\<close>

text \<open>
  Claim C5. When the profile fetch of a user with a username returns bootstrap data
  whose \<^verbatim>\<open>props.pageProps.statusCode\<close> equals 404, \<^verbatim>\<open>info_full\<close> raises
  \<open>NotFoundException\<close> with a message that names the requested username; with any other
  status code it returns \<^verbatim>\<open>props.pageProps.userInfo\<close> (the result of that lookup).
\<close>

theorem info_full_status_code:
  assumes "username u = JStr name" and "name \<noteq> []"
    and "requests_get env (profile_url env name) = Inr page"
    and "extract_tag_contents env page = Inr data"
    and "json_loads env data = Some decoded"
    and "py_getitem decoded ''props'' = Inr props"
    and "py_getitem props ''pageProps'' = Inr user_props"
    and "py_getitem user_props ''statusCode'' = Inr status"
  shows "fst (info_full env u) =
           (if py_eq status (JInt 404)
            then Inl (NotFoundException
                        (''TikTok user with username '' @ name @ '' does not exist''))
            else py_getitem user_props ''userInfo'')"
  using assms by (simp add: info_full_def loads_def not_found_message_def py_truthy_def)

text \<open>A profile page with status 404 and one with a \<^verbatim>\<open>userInfo\<close>.\<close>

theorem info_full_status_code_witness:
  "fst (info_full (example_env (\<lambda>k. []) no_wait_error)
          nobody) =
     Inl (NotFoundException ''TikTok user with username nobody does not exist'') \<and>
   fst (info_full (example_env (\<lambda>k. []) no_wait_error) alice) =
     Inr alice_info"
proof -
  let ?env = "example_env (\<lambda>k. []) no_wait_error"
  have a: "fst (info_full ?env nobody) =
     Inl (NotFoundException ''TikTok user with username nobody does not exist'')"
    using info_full_status_code [of nobody "''nobody''" ?env "''missing''" "''missing''"
        "JObj [(''props'', JObj [(''pageProps'', JObj [(''statusCode'', JInt 404)])])]"
        "JObj [(''pageProps'', JObj [(''statusCode'', JInt 404)])]"
        "JObj [(''statusCode'', JInt 404)]" "JInt 404"]
    by (simp add: example_env_def profile_url_def example_loads_def py_num_def nobody_def)
  have b: "fst (info_full ?env alice) =
     Inr alice_info"
    using info_full_status_code [of alice "''alice''" ?env "''profile''" "''profile''"
        "the (example_loads ''profile'')"
        "JObj [(''pageProps'',
                JObj [(''statusCode'', JInt 0),
                      (''userInfo'', JObj [(''user'',
                         JObj [(''id'', JStr ''1''), (''secUid'', JStr ''MS4w''),
                               (''uniqueId'', JStr ''alice'')])])])]"
        "JObj [(''statusCode'', JInt 0),
                      (''userInfo'', JObj [(''user'',
                         JObj [(''id'', JStr ''1''), (''secUid'', JStr ''MS4w''),
                               (''uniqueId'', JStr ''alice'')])])]" "JInt 0"]
    by (simp add: example_env_def profile_url_def example_loads_def py_num_def alice_def alice_info_def)
  from a b show ?thesis by simp
qed


lemma info_events:
  "snd (info env u) =
     (case username u of
        JStr name \<Rightarrow> if name = [] then [] else [HttpGet (profile_url env name)]
      | _ \<Rightarrow> [])"
  by (simp add: info_def info_full_def py_truthy_def split: prod.splits json.splits)

text \<open>
  Claim C6. \<^verbatim>\<open>__find_attributes\<close> searches by username first, and the results are
  compared with this user's name by equality. When a result matches, the identifiers
  of the first such result are stored and the only effect is the search: no profile
  page is fetched. When no result matches and the search raised, its exception leaves
  the method, again with no fetch. Only when no result matches and the search ended
  normally does the profile-info fetch follow the search: its events come after the
  search, a failure of it is the failure of the resolution, and on success the
  \<^verbatim>\<open>id\<close>, \<^verbatim>\<open>secUid\<close> and \<^verbatim>\<open>uniqueId\<close> of the user object it returns are stored.
\<close>

theorem find_attributes_search_first:
  assumes search: "search_users env (username u) = (results, failure)"
  shows "(\<forall>x. find (\<lambda>x. py_eq (username x) (username u)) results = Some x \<longrightarrow>
            find_attributes env u =
              (Inr \<lparr>username = username x, user_id = user_id x, sec_uid = sec_uid x\<rparr>,
               [SearchUsers (username u)])) \<and>
         (\<forall>e. find (\<lambda>x. py_eq (username x) (username u)) results = None \<longrightarrow>
            failure = Some e \<longrightarrow>
            find_attributes env u = (Inl e, [SearchUsers (username u)])) \<and>
         (find (\<lambda>x. py_eq (username x) (username u)) results = None \<longrightarrow> failure = None \<longrightarrow>
            (\<forall>e evs. info env u = (Inl e, evs) \<longrightarrow>
               find_attributes env u = (Inl e, SearchUsers (username u) # evs)) \<and>
            (\<forall>user_object evs i s n.
               info env u = (Inr user_object, evs) \<longrightarrow>
               py_getitem user_object ''id'' = Inr i \<longrightarrow>
               py_getitem user_object ''secUid'' = Inr s \<longrightarrow>
               py_getitem user_object ''uniqueId'' = Inr n \<longrightarrow>
               find_attributes env u =
                 (Inr \<lparr>username = n, user_id = i, sec_uid = s\<rparr>,
                  SearchUsers (username u) # evs)) \<and>
            (\<forall>name. username u = JStr name \<longrightarrow> name \<noteq> [] \<longrightarrow>
               snd (find_attributes env u) =
                 [SearchUsers (username u), HttpGet (profile_url env name)]))"
proof (intro conjI allI impI)
  fix x
  assume "find (\<lambda>x. py_eq (username x) (username u)) results = Some x"
  with search show "find_attributes env u =
      (Inr \<lparr>username = username x, user_id = user_id x, sec_uid = sec_uid x\<rparr>,
       [SearchUsers (username u)])"
    by (simp add: find_attributes_def update_id_sec_uid_username_def)
next
  fix e
  assume "find (\<lambda>x. py_eq (username x) (username u)) results = None" "failure = Some e"
  with search show "find_attributes env u = (Inl e, [SearchUsers (username u)])"
    by (simp add: find_attributes_def)
next
  fix e evs
  assume "find (\<lambda>x. py_eq (username x) (username u)) results = None" "failure = None"
    "info env u = (Inl e, evs)"
  with search show "find_attributes env u = (Inl e, SearchUsers (username u) # evs)"
    by (simp add: find_attributes_def)
next
  fix user_object evs i s n
  assume "find (\<lambda>x. py_eq (username x) (username u)) results = None" "failure = None"
    "info env u = (Inr user_object, evs)"
    "py_getitem user_object ''id'' = Inr i"
    "py_getitem user_object ''secUid'' = Inr s"
    "py_getitem user_object ''uniqueId'' = Inr n"
  with search show "find_attributes env u =
      (Inr \<lparr>username = n, user_id = i, sec_uid = s\<rparr>, SearchUsers (username u) # evs)"
    by (simp add: find_attributes_def update_id_sec_uid_username_def)
next
  fix name
  assume none: "find (\<lambda>x. py_eq (username x) (username u)) results = None" "failure = None"
    and name: "username u = JStr name" "name \<noteq> []"
  have "snd (find_attributes env u) = SearchUsers (username u) # snd (info env u)"
    using search none by (simp add: find_attributes_def split: prod.splits)
  with name show "snd (find_attributes env u) =
      [SearchUsers (username u), HttpGet (profile_url env name)]"
    by (simp add: info_events)
qed

text \<open>
  A search that finds the user, and one that does not, after which the profile page
  resolves the identifiers.
\<close>

theorem find_attributes_search_first_witness:
  "find_attributes (search_env [bob_user, alice_found]) alice =
     (Inr alice_found, [SearchUsers (JStr ''alice'')]) \<and>
   find_attributes (search_env [bob_user]) alice =
     (Inr alice_found,
      [SearchUsers (JStr ''alice''), HttpGet ''https://tiktok.com/@alice?lang=en''])"
proof -
  have s1: "search_users (search_env [bob_user, alice_found]) (username alice) =
              ([bob_user, alice_found], None)"
    and s2: "search_users (search_env [bob_user]) (username alice) = ([bob_user], None)"
    by (simp_all add: search_env_def)
  have i: "info (search_env [bob_user]) alice =
             (Inr (JObj [(''id'', JStr ''1''), (''secUid'', JStr ''MS4w''),
                         (''uniqueId'', JStr ''alice'')]),
              [HttpGet ''https://tiktok.com/@alice?lang=en''])"
    by (simp add: info_def info_full_def search_env_def example_env_def alice_def
        profile_url_def loads_def example_loads_def py_truthy_def py_num_def)
  have a: "find_attributes (search_env [bob_user, alice_found]) alice =
     (Inr alice_found, [SearchUsers (JStr ''alice'')])"
    using find_attributes_search_first [OF s1]
    by (simp add: alice_def bob_user_def alice_found_def)
  have b: "find_attributes (search_env [bob_user]) alice =
     (Inr alice_found,
      [SearchUsers (JStr ''alice''), HttpGet ''https://tiktok.com/@alice?lang=en''])"
    using find_attributes_search_first [OF s2] i
    by (simp add: alice_def bob_user_def alice_found_def)
  from a b show ?thesis by simp
qed

text \<open>
  \<^verbatim>\<open>liked\<close> resolves the identifiers before its first request, and only when both
  are unknown.
\<close>

lemma liked_resolves_first:
  "liked fuel env u count cursor =
     (if user_id u = JNull \<and> sec_uid u = JNull then
        (case fst (find_attributes env u) of
           Inl e \<Rightarrow> Some (init_state (snd (find_attributes env u)), Exception e)
         | Inr u' \<Rightarrow>
             liked_while fuel env count cursor True 0 (init_state (snd (find_attributes env u))))
      else liked_while fuel env count cursor True 0 (init_state []))"
  by (simp add: liked_def split: prod.splits sum.splits)

section \<open>\<^verbatim>\<open>User.liked\<close> on a private account\<close>

text \<open>
  Claim C9. When \<^verbatim>\<open>liked\<close> is asked for at least one video and the response to its
  first request is a dict without the key \<^verbatim>\<open>"itemList"\<close>, the run logs that the
  likes are most likely private and returns: nothing is yielded and nothing is raised.
  The events before the request are those of the resolution of the identifiers, which
  runs when both are unknown.
\<close>

theorem liked_private:
  assumes resolved: "if user_id u = JNull \<and> sec_uid u = JNull
                     then find_attributes env u = (Inr u', evs) else evs = []"
    and "0 < count"
    and "get_data env 0 = Inr (JObj kvs)"
    and "map_of kvs ''itemList'' = None"
  shows "liked (Suc fuel) env u count cursor =
           Some (\<lparr>amount_yielded = 0, urls = [], yielded = [],
                  events = evs @ [GetData cursor,
                                  LogError ''User's likes are most likely private'']\<rparr>,
                 EarlyReturn)"
  using assms
  by (auto simp: liked_def init_state_def log_def py_lacks_key_def split: if_splits)

text \<open>The example user, resolved by the search, with a first response that has no items.\<close>

theorem liked_private_witness:
  "liked 1 (search_env [alice_found]) alice 30 (JInt 0) =
     Some (\<lparr>amount_yielded = 0, urls = [], yielded = [],
            events = [SearchUsers (JStr ''alice''), GetData (JInt 0),
                      LogError ''User's likes are most likely private'']\<rparr>,
           EarlyReturn)"
  using liked_private [of alice "search_env [alice_found]" alice_found
      "[SearchUsers (JStr ''alice'')]" 30 "[(''statusCode'', JInt 0)]" 0 "JInt 0"]
  by (simp add: alice_def alice_found_def search_env_def example_env_def find_attributes_def
      update_id_sec_uid_username_def)

section \<open>Evaluating the example runs\<close>

text \<open>
  The definitions a concrete run unfolds, those of the example inputs, and the first
  page of the examples.
\<close>

lemmas run_defs = videos_def videos_request_def
  videos_emit_def videos_path_def
  search_type_def search_request_def search_emit_def liked_def
  init_state_def log_def loads_def py_get_def py_getitem_def py_len_def py_iter_def
  py_values_def py_truthy_def py_str_def py_lacks_key_def py_num_def Let_def

lemmas example_defs = example_env_def example_loads_def req_def alice_def
  video8_def bob_def capture_by_call_def wait_error_at_def no_wait_error_def
  search_selector_def no_more_tiktoks_def no_more_videos_def liked_env_def liked_page_def
  alice_found_def

lemma first_page_example:
  "first_page_videos (bootstrap [] b) = Inr (JList [alice_normalized])"
  "first_page_videos (bootstrap [(''type'', JStr ''verify'')] b) = Inr (JList [alice_normalized])"
  by (simp_all add: first_page_videos_def bootstrap_def py_values_def
      normalize_video_def alice_video_def alice_normalized_def alice_author_def alice_entry_def
      users_field_def py_getitem_val_def py_setitem_def py_int_def parse_int_def strip_def
      is_space_def parse_digits_def is_digit_def digit_val_def int_max_str_digits_def)

lemma bootstrap_has_more:
  "videos_has_more (Suc 0) (bootstrap [] b) = Inr (JBool b)"
  "videos_has_more (Suc 0) (bootstrap [(''type'', JStr ''verify'')] b) = Inr (JBool b)"
  by (simp_all add: videos_has_more_def bootstrap_def)

lemma videos_has_more_later:
  "request_num \<noteq> 1 \<Longrightarrow>
   videos_has_more request_num res = py_get res ''hasMore'' (JBool False)"
  by (simp add: videos_has_more_def)





section \<open>The bound on the iterations\<close>

text \<open>
  A run that ends within the bound ends the same way under any larger bound: the
  result of a run does not depend on the bound.
\<close>

lemma videos_while_more_fuel:
  "videos_while fuel env u count request_num s = Some result \<Longrightarrow>
   videos_while (fuel + extra) env u count request_num s = Some result"
proof (induction fuel arbitrary: request_num s)
  case 0
  then show ?case by simp
next
  case (Suc fuel)
  then show ?case
    by (auto split: if_splits flow.splits option.splits sum.splits)
qed

lemma search_while_more_fuel:
  "search_while fuel env obj_type count k s = Some result \<Longrightarrow>
   search_while (fuel + extra) env obj_type count k s = Some result"
proof (induction fuel arbitrary: k s)
  case 0
  then show ?case by simp
next
  case (Suc fuel)
  then show ?case
    by (auto simp: Let_def split: if_splits flow.splits option.splits)
qed

lemma liked_while_more_fuel:
  "liked_while fuel env count cursor first k s = Some result \<Longrightarrow>
   liked_while (fuel + extra) env count cursor first k s = Some result"
proof (induction fuel arbitrary: cursor first k s)
  case 0
  then show ?case by simp
next
  case (Suc fuel)
  then show ?case
    by (auto simp: Let_def split: if_splits sum.splits bool.splits prod.splits)
qed

section \<open>How many items a run yields\<close>




















text \<open>
  \<^verbatim>\<open>User.liked\<close> counts every video twice, once with \<^verbatim>\<open>len(videos)\<close> and once in
  the loop that yields: asked for two videos, it stops by the loop condition after
  yielding one, although the response says there are more.
\<close>

lemma liked_counts_twice:
  "liked 2 liked_env alice_found 2 (JInt 0) =
   Some (\<lparr>amount_yielded = 2, urls = [], yielded = [VideoEntity video8],
          events = [GetData (JInt 0)]\<rparr>, LoopExit)"
  by (simp add: run_defs example_defs numeral_2_eq_2)

section \<open>URLs already processed\<close>

text \<open>
  Claim C2 on \<^verbatim>\<open>User.videos\<close>. The URLs are recorded in \<^verbatim>\<open>searched_urls\<close> and never
  looked up: a request with URL \<^verbatim>\<open>a\<close> that the capture buffer returns in the second
  and in the third iteration is decoded and yielded from in both.
\<close>

theorem videos_reprocesses_url:
  "videos 4 (example_env (capture_by_call
                [[req ''p'' ''first''], [req ''a'' ''page''], [req ''a'' ''page'']])
             no_wait_error) alice 3 =
   Some (\<lparr>amount_yielded = 3, urls = [''p'', ''a'', ''a''],
          yielded = [VideoEntity alice_normalized, VideoEntity video8, VideoEntity video8],
          events = [Goto ''https://www.tiktok.com/@alice'', WaitForContent ''user-post-item'',
                    GetRequests ''@alice'', ScrollToBottom,
                    WaitNotSkeleton ''video-skeleton-container'', RequestDelay,
                    GetRequests ''api/post/item_list'', ScrollToBottom,
                    WaitNotSkeleton ''video-skeleton-container'', RequestDelay,
                    GetRequests ''api/post/item_list'', ScrollToBottom,
                    WaitNotSkeleton ''video-skeleton-container'', RequestDelay]\<rparr>,
         LoopExit)"
  by (simp add: run_defs example_defs eval_nat_numeral first_page_example bootstrap_has_more
      videos_has_more_later)

text \<open>
  \<^verbatim>\<open>Search.search_type\<close> filters the captured requests by \<^verbatim>\<open>processed_urls\<close>: the
  URLs an iteration processes are none of those recorded before it.
\<close>

lemma search_for_append:
  "search_for env obj_type (xs @ ys) s =
     (case search_for env obj_type xs s of
        Normal s' \<Rightarrow> search_for env obj_type ys s'
      | Returned s' \<Rightarrow> Returned s'
      | Raised e s' \<Rightarrow> Raised e s')"
  by (induction xs arbitrary: s) (auto split: flow.splits)

lemma videos_for_append:
  "videos_for env request_num (xs @ ys) s =
     (case videos_for env request_num xs s of
        Normal s' \<Rightarrow> videos_for env request_num ys s'
      | Returned s' \<Rightarrow> Returned s'
      | Raised e s' \<Rightarrow> Raised e s')"
  by (induction xs arbitrary: s) (auto split: flow.splits)

lemma search_request_urls:
  "urls (flow_state (search_request env obj_type r s)) = urls s @ [url r]"
  by (auto simp: search_request_def search_emit_def log_def Let_def
      split: sum.splits option.splits flow.splits)

lemma search_for_urls:
  "\<exists>n. urls (flow_state (search_for env obj_type rs s)) = urls s @ map url (take n rs)"
proof (induction rs arbitrary: s)
  case Nil
  then show ?case by simp
next
  case (Cons r rs)
  show ?case
  proof (cases "search_request env obj_type r s")
    case (Normal s')
    with search_request_urls [of env obj_type r s] have u: "urls s' = urls s @ [url r]"
      by simp
    from Cons.IH [of s'] obtain n where
      "urls (flow_state (search_for env obj_type rs s')) = urls s' @ map url (take n rs)"
      by blast
    with Normal u have
      "urls (flow_state (search_for env obj_type (r # rs) s)) =
         urls s @ map url (take (Suc n) (r # rs))"
      by simp
    then show ?thesis by blast
  next
    case (Returned s')
    with search_request_urls [of env obj_type r s] have
      "urls (flow_state (search_for env obj_type (r # rs) s)) =
         urls s @ map url (take (Suc 0) (r # rs))"
      by simp
    then show ?thesis by blast
  next
    case (Raised e s')
    with search_request_urls [of env obj_type r s] have
      "urls (flow_state (search_for env obj_type (r # rs) s)) =
         urls s @ map url (take (Suc 0) (r # rs))"
      by simp
    then show ?thesis by blast
  qed
qed

lemma search_iteration_fresh_urls:
  assumes "fl = search_for env obj_type
                  (filter (\<lambda>request. url request \<notin> set (urls s)) captured) (log evs s)"
  shows "\<exists>new. urls (flow_state fl) = urls s @ new \<and> set new \<inter> set (urls s) = {}"
proof -
  let ?rs = "filter (\<lambda>request. url request \<notin> set (urls s)) captured"
  from search_for_urls [of env obj_type ?rs "log evs s"] obtain n where
    n: "urls (flow_state fl) = urls s @ map url (take n ?rs)"
    using assms by (auto simp: log_def)
  have "set (map url (take n ?rs)) \<inter> set (urls s) = {}"
    by (auto dest!: in_set_takeD)
  with n show ?thesis by blast
qed

section \<open>Captcha-denial envelopes\<close>

text \<open>
  Claim C3, as amended. A captured response whose decoded envelope has \<^verbatim>\<open>type\<close>
  \<^verbatim>\<open>'verify'\<close> is skipped by \<^verbatim>\<open>Search.search_type\<close>, and by \<^verbatim>\<open>User.videos\<close> on
  every page after the first: its URL is recorded and the loop goes on with the
  remaining requests in a state that is otherwise unchanged, so nothing is yielded
  from it, the counter stays, its has-more flag is not read and the run does not end
  because of it.
\<close>

theorem verify_envelope_skipped:
  assumes "get_response_body env r = Inr body"
    and "json_loads env body = Some res"
    and "py_get res ''type'' JNull = Inr (JStr ''verify'')"
  shows "search_for env obj_type (r # rs) s =
           search_for env obj_type rs (s\<lparr>urls := urls s @ [url r]\<rparr>) \<and>
         (1 < request_num \<longrightarrow>
            videos_for env request_num (r # rs) s =
              videos_for env request_num rs (s\<lparr>urls := urls s @ [url r]\<rparr>))"
  using assms by (simp add: search_request_def videos_request_def loads_def)

text \<open>
  A captcha-denial envelope followed by a page of results, in both drivers.
\<close>

theorem verify_envelope_skipped_witness:
  "search_for (example_env (capture_by_call []) no_wait_error) ''user''
      [req ''a'' ''verify'', req ''b'' ''users''] (init_state []) =
   search_for (example_env (capture_by_call []) no_wait_error) ''user''
      [req ''b'' ''users''] ((init_state [])\<lparr>urls := [''a'']\<rparr>) \<and>
   videos_for (example_env (capture_by_call []) no_wait_error) 2
      [req ''a'' ''verify'', req ''b'' ''page''] (init_state []) =
   videos_for (example_env (capture_by_call []) no_wait_error) 2
      [req ''b'' ''page''] ((init_state [])\<lparr>urls := [''a'']\<rparr>)"
  using verify_envelope_skipped [of "example_env (capture_by_call []) no_wait_error"
      "req ''a'' ''verify''" "''verify''" "JObj [(''type'', JStr ''verify'')]"
      "''user''" "[req ''b'' ''users'']" "init_state []" 0]
    verify_envelope_skipped [of "example_env (capture_by_call []) no_wait_error"
      "req ''a'' ''verify''" "''verify''" "JObj [(''type'', JStr ''verify'')]"
      "''user''" "[req ''b'' ''page'']" "init_state []" 2]
  by (simp add: example_env_def example_loads_def req_def py_get_def init_state_def)

text \<open>
  Claim C3 as stated fails on the first page of \<^verbatim>\<open>User.videos\<close>, where the type is
  not looked at: bootstrap data with \<^verbatim>\<open>type\<close> \<^verbatim>\<open>'verify'\<close>, one video and a false
  \<^verbatim>\<open>hasMore\<close> has its video yielded and counted, and its flag ends the run.
\<close>

theorem videos_first_page_verify_counterexample:
  "videos 1 (example_env (capture_by_call [[req ''p'' ''first-verify'']]) no_wait_error)
      alice 1 =
   Some (\<lparr>amount_yielded = 1, urls = [''p''], yielded = [VideoEntity alice_normalized],
          events = [Goto ''https://www.tiktok.com/@alice'', WaitForContent ''user-post-item'',
                    GetRequests ''@alice'', LogInfo no_more_tiktoks]\<rparr>,
         EarlyReturn)"
  by (simp add: run_defs example_defs first_page_example bootstrap_has_more
      videos_has_more_later)

section \<open>Bodies that do not decode\<close>

text \<open>
  Claim C4 on \<^verbatim>\<open>User.videos\<close>. On the second page a body that does not decode is
  followed by a good one: \<^verbatim>\<open>json.loads\<close> is not guarded there, the run ends with
  \<open>JSONDecodeError\<close> and the good response is never read.
\<close>

theorem videos_decode_failure_raises:
  "videos 2 (example_env (capture_by_call
                [[req ''p'' ''first''], [req ''a'' ''bad'', req ''b'' ''page'']])
             no_wait_error) alice 3 =
   Some (\<lparr>amount_yielded = 1, urls = [''p'', ''a''],
          yielded = [VideoEntity alice_normalized],
          events = [Goto ''https://www.tiktok.com/@alice'', WaitForContent ''user-post-item'',
                    GetRequests ''@alice'', ScrollToBottom,
                    WaitNotSkeleton ''video-skeleton-container'', RequestDelay,
                    GetRequests ''api/post/item_list'']\<rparr>,
         Exception JSONDecodeError)"
  by (simp add: run_defs example_defs eval_nat_numeral first_page_example bootstrap_has_more
      videos_has_more_later)

text \<open>
  \<^verbatim>\<open>Search.search_type\<close> catches the decoding error: the body is skipped and the
  loop goes on with the remaining requests.
\<close>

lemma search_decode_failure_skipped:
  assumes "get_response_body env r = Inr body" and "json_loads env body = None"
  shows "search_for env obj_type (r # rs) s =
           search_for env obj_type rs (s\<lparr>urls := urls s @ [url r]\<rparr>)"
  using assms by (simp add: search_request_def)

section \<open>The end of the results\<close>

text \<open>
  A response of a search that is a dict, is no captcha-denial envelope, and whose
  \<^verbatim>\<open>res.get("has_more", 0)\<close> equals 0 ends the run: its results are yielded and the
  generator returns, or reading its results raises.
\<close>

lemma py_len_py_iter:
  "py_len v = (case py_iter v of Inl e \<Rightarrow> Inl e | Inr vs \<Rightarrow> Inr (int (length vs)))"
  by (cases v) (simp_all add: py_len_def py_iter_def)

lemma search_request_stops:
  assumes "obj_type = ''user'' \<or> obj_type = ''item''"
    and "get_response_body env r = Inr body"
    and "json_loads env body = Some (JObj kvs)"
    and "map_of kvs ''type'' \<noteq> Some (JStr ''verify'')"
    and "py_get (JObj kvs) ''has_more'' (JInt 0) = Inr has_more"
    and "py_eq has_more (JInt 0)"
  shows "search_request env obj_type r s =
     (case bindE (py_get (JObj kvs)
                    (if obj_type = ''user'' then ''user_list'' else ''item_list'') (JList []))
             py_iter of
        Inl e \<Rightarrow> Raised e (s\<lparr>urls := urls s @ [url r]\<rparr>)
      | Inr results \<Rightarrow>
          Returned \<lparr>amount_yielded = amount_yielded s + int (length results),
                    urls = urls s @ [url r],
                    yielded = yielded s @
                      map (if obj_type = ''user'' then UserEntity else VideoEntity) results,
                    events = events s @ [LogInfo ''TikTok is not sending videos beyond this point.'']\<rparr>)"
proof -
  have ty: "py_get (JObj kvs) ''type'' JNull \<noteq> Inr (JStr ''verify'')"
    using assms(4) by (auto simp: py_get_def split: option.splits)
  obtain ty' where ty': "py_get (JObj kvs) ''type'' JNull = Inr ty'"
    by (cases "map_of kvs ''type''") (auto simp: py_get_def)
  with ty have "ty' \<noteq> JStr ''verify''" by simp
  with assms ty' show ?thesis
    by (auto simp: search_request_def search_emit_def log_def split: sum.splits)
qed

lemma search_while_stops:
  assumes "obj_type = ''user'' \<or> obj_type = ''item''"
    and "amount_yielded s < count"
    and "filter (\<lambda>request. url request \<notin> set (urls s))
           (get_requests env k (''api/search/'' @ obj_type)) = earlier @ r # later"
    and "search_for env obj_type earlier
           (log [RequestDelay, GetRequests (''api/search/'' @ obj_type)] s) = Normal s1"
    and "get_response_body env r = Inr body"
    and "json_loads env body = Some (JObj kvs)"
    and "map_of kvs ''type'' \<noteq> Some (JStr ''verify'')"
    and "py_get (JObj kvs) ''has_more'' (JInt 0) = Inr has_more"
    and "py_eq has_more (JInt 0)"
  shows "search_while (Suc fuel) env obj_type count k s =
     (case bindE (py_get (JObj kvs)
                    (if obj_type = ''user'' then ''user_list'' else ''item_list'') (JList []))
             py_iter of
        Inl e \<Rightarrow> Some (s1\<lparr>urls := urls s1 @ [url r]\<rparr>, Exception e)
      | Inr results \<Rightarrow>
          Some (\<lparr>amount_yielded = amount_yielded s1 + int (length results),
                 urls = urls s1 @ [url r],
                 yielded = yielded s1 @
                   map (if obj_type = ''user'' then UserEntity else VideoEntity) results,
                 events = events s1 @ [LogInfo ''TikTok is not sending videos beyond this point.'']\<rparr>,
                EarlyReturn))"
proof -
  let ?reqs = "filter (\<lambda>request. url request \<notin> set (urls s))
                 (get_requests env k (''api/search/'' @ obj_type))"
  let ?s0 = "log [RequestDelay, GetRequests (''api/search/'' @ obj_type)] s"
  note stop = search_request_stops [OF assms(1) assms(5-9), of s1]
  have loop: "search_for env obj_type ?reqs ?s0 =
                (case search_request env obj_type r s1 of
                   Normal s' \<Rightarrow> search_for env obj_type later s'
                 | Returned s' \<Rightarrow> Returned s'
                 | Raised e s' \<Rightarrow> Raised e s')"
    by (simp only: assms(3) search_for_append assms(4) flow.case search_for.simps)
  have step: "search_while (Suc fuel) env obj_type count k s =
                (case search_for env obj_type ?reqs ?s0 of
                   Returned s' \<Rightarrow> Some (s', EarlyReturn)
                 | Raised e s' \<Rightarrow> Some (s', Exception e)
                 | Normal s' \<Rightarrow>
                     (let s'' = log [RequestDelay, SlightScrollUp, RequestDelay, ScrollToBottom,
                                     WaitNotSkeleton ''video-skeleton-container''] s'
                      in case wait_until_not_skeleton_or_captcha env k of
                           Some e \<Rightarrow> Some (s'', Exception e)
                         | None \<Rightarrow> search_while fuel env obj_type count (Suc k) s''))"
    by (simp only: search_while.simps assms(2) if_True)
  show ?thesis
    by (simp only: step loop stop) (simp split: sum.splits)
qed

text \<open>
  Claim C8, as amended. In a search run, let the requests of an iteration that come
  before \<^verbatim>\<open>r\<close> be processed without ending the run, and let the response of \<^verbatim>\<open>r\<close>
  decode to a dict that is no captcha-denial envelope and has \<^verbatim>\<open>has_more\<close> equal to
  0. Then the run ends with this response: the results of \<^verbatim>\<open>r\<close> are the last items
  yielded, the message is the last event, and the generator returns (or reading the
  results raises, and nothing of \<^verbatim>\<open>r\<close> is yielded). The requests after \<^verbatim>\<open>r\<close> are
  not processed, and no further scroll or capture takes place.
\<close>

theorem search_has_more_zero_terminates:
  assumes "obj_type = ''user'' \<or> obj_type = ''item''"
    and "amount_yielded s < count"
    and "filter (\<lambda>request. url request \<notin> set (urls s))
           (get_requests env k (''api/search/'' @ obj_type)) = earlier @ r # later"
    and "search_for env obj_type earlier
           (log [RequestDelay, GetRequests (''api/search/'' @ obj_type)] s) = Normal s1"
    and "get_response_body env r = Inr body"
    and "json_loads env body = Some (JObj kvs)"
    and "map_of kvs ''type'' \<noteq> Some (JStr ''verify'')"
    and "map_of kvs ''has_more'' = Some has_more"
    and "py_eq has_more (JInt 0)"
  shows "search_while (Suc fuel) env obj_type count k s =
     (case bindE (py_get (JObj kvs)
                    (if obj_type = ''user'' then ''user_list'' else ''item_list'') (JList []))
             py_iter of
        Inl e \<Rightarrow> Some (s1\<lparr>urls := urls s1 @ [url r]\<rparr>, Exception e)
      | Inr results \<Rightarrow>
          Some (\<lparr>amount_yielded = amount_yielded s1 + int (length results),
                 urls = urls s1 @ [url r],
                 yielded = yielded s1 @
                   map (if obj_type = ''user'' then UserEntity else VideoEntity) results,
                 events = events s1 @
                   [LogInfo ''TikTok is not sending videos beyond this point.'']\<rparr>,
                EarlyReturn))"
proof -
  have "py_get (JObj kvs) ''has_more'' (JInt 0) = Inr has_more"
    using assms(8) by (simp add: py_get_def)
  from search_while_stops [OF assms(1-7) this assms(9)]
  show ?thesis .
qed

text \<open>
  A response with \<^verbatim>\<open>has_more\<close> 0 between two responses with \<^verbatim>\<open>has_more\<close> 1.
\<close>

theorem search_has_more_zero_terminates_witness:
  "search_while 1
      (example_env (capture_by_call
         [[req ''a'' ''users'', req ''b'' ''users-last'', req ''c'' ''users'']]) no_wait_error)
      ''user'' 5 0 (init_state []) =
   Some (\<lparr>amount_yielded = 2, urls = [''a'', ''b''],
          yielded = [UserEntity bob, UserEntity bob],
          events = [RequestDelay, GetRequests ''api/search/user'',
                    LogInfo no_more_videos]\<rparr>,
         EarlyReturn)"
  using search_has_more_zero_terminates [of "''user''" "init_state []" 5
      "example_env (capture_by_call
         [[req ''a'' ''users'', req ''b'' ''users-last'', req ''c'' ''users'']]) no_wait_error"
      0 "[req ''a'' ''users'']" "req ''b'' ''users-last''" "[req ''c'' ''users'']"
      "\<lparr>amount_yielded = 1, urls = [''a''], yielded = [UserEntity bob],
        events = [RequestDelay, GetRequests ''api/search/user'']\<rparr>"
      "''users-last''" "[(''user_list'', JList [bob]), (''has_more'', JInt 0)]" "JInt 0" 0]
  by (simp add: run_defs example_defs)

text \<open>
  Claim C8 as stated fails on a captcha-denial envelope that carries \<^verbatim>\<open>has_more\<close> 0:
  it is skipped before the flag is read, and the user of the next response is yielded.
\<close>

theorem search_verify_has_more_zero_counterexample:
  "search_type 2 (example_env (capture_by_call [[req ''a'' ''verify-0'', req ''b'' ''users'']])
                  no_wait_error) ''q'' ''user'' 1 =
   Some (\<lparr>amount_yielded = 1, urls = [''a'', ''b''], yielded = [UserEntity bob],
          events = [Goto ''https://www.tiktok.com/search/user?q=q'',
                    WaitForContent search_selector,
                    RequestDelay, GetRequests ''api/search/user'', RequestDelay,
                    SlightScrollUp, RequestDelay, ScrollToBottom,
                    WaitNotSkeleton ''video-skeleton-container'']\<rparr>,
         LoopExit)"
  by (simp add: run_defs example_defs eval_nat_numeral)

text \<open>
  The same for \<^verbatim>\<open>User.videos\<close> after the first page, for a response without the key
  \<^verbatim>\<open>hasMore\<close>.
\<close>

lemma videos_request_stops:
  assumes "1 < request_num"
    and "get_response_body env r = Inr body"
    and "json_loads env body = Some (JObj kvs)"
    and "map_of kvs ''type'' \<noteq> Some (JStr ''verify'')"
    and "map_of kvs ''hasMore'' = None"
  shows "videos_request env request_num r s =
     (case bindE (py_get (JObj kvs) ''itemList'' (JList [])) py_iter of
        Inl e \<Rightarrow> Raised e (s\<lparr>urls := urls s @ [url r]\<rparr>)
      | Inr vs \<Rightarrow>
          Returned \<lparr>amount_yielded = amount_yielded s + int (length vs),
                    urls = urls s @ [url r],
                    yielded = yielded s @ map VideoEntity vs,
                    events = events s @ [LogInfo ''TikTok isn't sending more TikToks beyond this point.'']\<rparr>)"
proof -
  obtain ty where ty: "py_get (JObj kvs) ''type'' JNull = Inr ty" "ty \<noteq> JStr ''verify''"
    using assms(4) by (cases "map_of kvs ''type''") (auto simp: py_get_def)
  obtain videos where v: "py_get (JObj kvs) ''itemList'' (JList []) = Inr videos"
    by (cases "map_of kvs ''itemList''") (auto simp: py_get_def)
  have hm: "videos_has_more request_num (JObj kvs) = Inr (JBool False)"
    using assms(1,5) by (simp add: videos_has_more_def py_get_def)
  show ?thesis
    using assms(1-3) ty v hm
    by (auto simp: videos_request_def videos_emit_def loads_def log_def py_len_py_iter
        py_truthy_def split: sum.splits)
qed

lemma videos_while_stops:
  assumes "1 < request_num"
    and "amount_yielded s < count"
    and "get_requests env (request_num - 1) ''api/post/item_list'' = earlier @ r # later"
    and "videos_for env request_num earlier (log [GetRequests ''api/post/item_list''] s) =
           Normal s1"
    and "get_response_body env r = Inr body"
    and "json_loads env body = Some (JObj kvs)"
    and "map_of kvs ''type'' \<noteq> Some (JStr ''verify'')"
    and "map_of kvs ''hasMore'' = None"
  shows "videos_while (Suc fuel) env u count request_num s =
     (case bindE (py_get (JObj kvs) ''itemList'' (JList [])) py_iter of
        Inl e \<Rightarrow> Some (s1\<lparr>urls := urls s1 @ [url r]\<rparr>, Exception e)
      | Inr vs \<Rightarrow>
          Some (\<lparr>amount_yielded = amount_yielded s1 + int (length vs),
                 urls = urls s1 @ [url r],
                 yielded = yielded s1 @ map VideoEntity vs,
                 events = events s1 @ [LogInfo ''TikTok isn't sending more TikToks beyond this point.'']\<rparr>,
                EarlyReturn))"
proof -
  note stop = videos_request_stops [OF assms(1) assms(5-8), of s1]
  have path: "videos_path env u request_num = Inr ''api/post/item_list''"
    using assms(1) by (simp add: videos_path_def)
  let ?s0 = "log [GetRequests ''api/post/item_list''] s"
  have loop: "videos_for env request_num (get_requests env (request_num - 1)
                 ''api/post/item_list'') ?s0 =
                (case videos_request env request_num r s1 of
                   Normal s' \<Rightarrow> videos_for env request_num later s'
                 | Returned s' \<Rightarrow> Returned s'
                 | Raised e s' \<Rightarrow> Raised e s')"
    by (simp only: assms(3) videos_for_append assms(4) flow.case videos_for.simps)
  have nz: "(request_num = 0) = False"
    using assms(1) by simp
  have step: "videos_while (Suc fuel) env u count request_num s =
                (case videos_for env request_num
                        (get_requests env (request_num - 1) ''api/post/item_list'') ?s0 of
                   Returned s' \<Rightarrow> Some (s', EarlyReturn)
                 | Raised e s' \<Rightarrow> Some (s', Exception e)
                 | Normal s' \<Rightarrow>
                     (case wait_until_not_skeleton_or_captcha env (request_num - 1) of
                        Some e \<Rightarrow>
                          Some (log [ScrollToBottom,
                                     WaitNotSkeleton ''video-skeleton-container''] s',
                                Exception e)
                      | None \<Rightarrow>
                          videos_while fuel env u count (request_num + 1)
                            (log [ScrollToBottom, WaitNotSkeleton ''video-skeleton-container'',
                                  RequestDelay] s')))"
    by (simp only: videos_while.simps assms(2) if_True nz if_False path sum.case)
  show ?thesis
    by (simp only: step loop stop) (simp split: sum.splits)
qed

text \<open>
  Claim C10, as amended. A response after the first page that decodes to a dict, is no
  captcha-denial envelope and lacks the has-more field ends the run, in \<^verbatim>\<open>User.videos\<close>
  (key \<^verbatim>\<open>hasMore\<close>, default \<^verbatim>\<open>False\<close>) and in \<^verbatim>\<open>Search.search_type\<close> (key
  \<^verbatim>\<open>has_more\<close>, default 0): its items are the last ones yielded, the message is the
  last event and the generator returns (or reading the items raises); the requests
  after it are not processed and no further page is requested.
\<close>

theorem missing_has_more_terminates:
  assumes "get_response_body env r = Inr body"
    and "json_loads env body = Some (JObj kvs)"
    and "map_of kvs ''type'' \<noteq> Some (JStr ''verify'')"
    and "amount_yielded s < count"
  shows "(1 < request_num \<longrightarrow> map_of kvs ''hasMore'' = None \<longrightarrow>
          get_requests env (request_num - 1) ''api/post/item_list'' = earlier @ r # later \<longrightarrow>
          videos_for env request_num earlier (log [GetRequests ''api/post/item_list''] s) =
            Normal s1 \<longrightarrow>
          videos_while (Suc fuel) env u count request_num s =
            (case bindE (py_get (JObj kvs) ''itemList'' (JList [])) py_iter of
               Inl e \<Rightarrow> Some (s1\<lparr>urls := urls s1 @ [url r]\<rparr>, Exception e)
             | Inr vs \<Rightarrow>
                 Some (\<lparr>amount_yielded = amount_yielded s1 + int (length vs),
                        urls = urls s1 @ [url r],
                        yielded = yielded s1 @ map VideoEntity vs,
                        events = events s1 @
                          [LogInfo ''TikTok isn't sending more TikToks beyond this point.'']\<rparr>,
                       EarlyReturn))) \<and>
         ((obj_type = ''user'' \<or> obj_type = ''item'') \<longrightarrow> map_of kvs ''has_more'' = None \<longrightarrow>
          filter (\<lambda>request. url request \<notin> set (urls s))
            (get_requests env k (''api/search/'' @ obj_type)) = earlier @ r # later \<longrightarrow>
          search_for env obj_type earlier
            (log [RequestDelay, GetRequests (''api/search/'' @ obj_type)] s) = Normal s2 \<longrightarrow>
          search_while (Suc fuel) env obj_type count k s =
            (case bindE (py_get (JObj kvs)
                           (if obj_type = ''user'' then ''user_list'' else ''item_list'')
                           (JList []))
                    py_iter of
               Inl e \<Rightarrow> Some (s2\<lparr>urls := urls s2 @ [url r]\<rparr>, Exception e)
             | Inr results \<Rightarrow>
                 Some (\<lparr>amount_yielded = amount_yielded s2 + int (length results),
                        urls = urls s2 @ [url r],
                        yielded = yielded s2 @
                          map (if obj_type = ''user'' then UserEntity else VideoEntity) results,
                        events = events s2 @
                          [LogInfo ''TikTok is not sending videos beyond this point.'']\<rparr>,
                       EarlyReturn)))"
proof (intro conjI impI)
  assume a: "1 < request_num" "map_of kvs ''hasMore'' = None"
    "get_requests env (request_num - 1) ''api/post/item_list'' = earlier @ r # later"
    "videos_for env request_num earlier (log [GetRequests ''api/post/item_list''] s) = Normal s1"
  from videos_while_stops [OF a(1) assms(4) a(3) a(4) assms(1-3) a(2)]
  show "videos_while (Suc fuel) env u count request_num s =
            (case bindE (py_get (JObj kvs) ''itemList'' (JList [])) py_iter of
               Inl e \<Rightarrow> Some (s1\<lparr>urls := urls s1 @ [url r]\<rparr>, Exception e)
             | Inr vs \<Rightarrow>
                 Some (\<lparr>amount_yielded = amount_yielded s1 + int (length vs),
                        urls = urls s1 @ [url r],
                        yielded = yielded s1 @ map VideoEntity vs,
                        events = events s1 @
                          [LogInfo ''TikTok isn't sending more TikToks beyond this point.'']\<rparr>,
                       EarlyReturn))" .
next
  assume a: "obj_type = ''user'' \<or> obj_type = ''item''" "map_of kvs ''has_more'' = None"
    "filter (\<lambda>request. url request \<notin> set (urls s))
       (get_requests env k (''api/search/'' @ obj_type)) = earlier @ r # later"
    "search_for env obj_type earlier
       (log [RequestDelay, GetRequests (''api/search/'' @ obj_type)] s) = Normal s2"
  have hm: "py_get (JObj kvs) ''has_more'' (JInt 0) = Inr (JInt 0)"
    using a(2) by (simp add: py_get_def)
  have z: "py_eq (JInt 0) (JInt 0)" by (simp add: py_num_def)
  from search_while_stops [OF a(1) assms(4) a(3) a(4) assms(1-3) hm z]
  show "search_while (Suc fuel) env obj_type count k s =
            (case bindE (py_get (JObj kvs)
                           (if obj_type = ''user'' then ''user_list'' else ''item_list'')
                           (JList []))
                    py_iter of
               Inl e \<Rightarrow> Some (s2\<lparr>urls := urls s2 @ [url r]\<rparr>, Exception e)
             | Inr results \<Rightarrow>
                 Some (\<lparr>amount_yielded = amount_yielded s2 + int (length results),
                        urls = urls s2 @ [url r],
                        yielded = yielded s2 @
                          map (if obj_type = ''user'' then UserEntity else VideoEntity) results,
                        events = events s2 @
                          [LogInfo ''TikTok is not sending videos beyond this point.'']\<rparr>,
                       EarlyReturn))" .
qed

text \<open>
  A response without the flag between two responses that have it, in both drivers.
\<close>

theorem missing_has_more_terminates_witness:
  "videos_while 1
      (example_env (capture_by_call
         [[], [req ''a'' ''page'', req ''b'' ''page-open'', req ''c'' ''page'']]) no_wait_error)
      alice 5 2 (init_state []) =
   Some (\<lparr>amount_yielded = 2, urls = [''a'', ''b''],
          yielded = [VideoEntity video8, VideoEntity video8],
          events = [GetRequests ''api/post/item_list'', LogInfo no_more_tiktoks]\<rparr>,
         EarlyReturn) \<and>
   search_while 1
      (example_env (capture_by_call
         [[req ''a'' ''users'', req ''b'' ''users-open'', req ''c'' ''users'']]) no_wait_error)
      ''user'' 5 0 (init_state []) =
   Some (\<lparr>amount_yielded = 2, urls = [''a'', ''b''],
          yielded = [UserEntity bob, UserEntity bob],
          events = [RequestDelay, GetRequests ''api/search/user'',
                    LogInfo no_more_videos]\<rparr>,
         EarlyReturn)"
proof -
  let ?env1 = "example_env (capture_by_call
         [[], [req ''a'' ''page'', req ''b'' ''page-open'', req ''c'' ''page'']]) no_wait_error"
  let ?env2 = "example_env (capture_by_call
         [[req ''a'' ''users'', req ''b'' ''users-open'', req ''c'' ''users'']]) no_wait_error"
  have a: "videos_while 1 ?env1 alice 5 2 (init_state []) =
   Some (\<lparr>amount_yielded = 2, urls = [''a'', ''b''],
          yielded = [VideoEntity video8, VideoEntity video8],
          events = [GetRequests ''api/post/item_list'', LogInfo no_more_tiktoks]\<rparr>,
         EarlyReturn)"
    using missing_has_more_terminates [of ?env1 "req ''b'' ''page-open''" "''page-open''"
        "[(''itemList'', JList [video8])]" "init_state []" 5 2
        "[req ''a'' ''page'']" "[req ''c'' ''page'']"
        "\<lparr>amount_yielded = 1, urls = [''a''], yielded = [VideoEntity video8],
          events = [GetRequests ''api/post/item_list'']\<rparr>" 0 alice]
    by (simp add: run_defs example_defs videos_has_more_later)
  have b: "search_while 1 ?env2 ''user'' 5 0 (init_state []) =
   Some (\<lparr>amount_yielded = 2, urls = [''a'', ''b''],
          yielded = [UserEntity bob, UserEntity bob],
          events = [RequestDelay, GetRequests ''api/search/user'',
                    LogInfo no_more_videos]\<rparr>,
         EarlyReturn)"
    using missing_has_more_terminates [of ?env2 "req ''b'' ''users-open''" "''users-open''"
        "[(''user_list'', JList [bob])]" "init_state []" 5 _ _
        "[req ''c'' ''users'']" _ _ _ "''user''" 0
        "\<lparr>amount_yielded = 1, urls = [''a''], yielded = [UserEntity bob],
          events = [RequestDelay, GetRequests ''api/search/user'']\<rparr>",
        where earlier = "[req ''a'' ''users'']"]
    by (simp add: run_defs example_defs)
  from a b show ?thesis by simp
qed

text \<open>
  Claim C10 as stated fails on a captcha-denial envelope, which has no has-more field:
  \<^verbatim>\<open>User.videos\<close> skips it on the second page, scrolls, captures again and yields the
  video of the third page.
\<close>

theorem videos_verify_without_has_more_counterexample:
  "videos 4 (example_env (capture_by_call
                [[req ''p'' ''first''], [req ''a'' ''verify''], [req ''b'' ''page'']])
             no_wait_error) alice 2 =
   Some (\<lparr>amount_yielded = 2, urls = [''p'', ''a'', ''b''],
          yielded = [VideoEntity alice_normalized, VideoEntity video8],
          events = [Goto ''https://www.tiktok.com/@alice'', WaitForContent ''user-post-item'',
                    GetRequests ''@alice'', ScrollToBottom,
                    WaitNotSkeleton ''video-skeleton-container'', RequestDelay,
                    GetRequests ''api/post/item_list'', ScrollToBottom,
                    WaitNotSkeleton ''video-skeleton-container'', RequestDelay,
                    GetRequests ''api/post/item_list'', ScrollToBottom,
                    WaitNotSkeleton ''video-skeleton-container'', RequestDelay]\<rparr>,
         LoopExit)"
  by (simp add: run_defs example_defs eval_nat_numeral first_page_example bootstrap_has_more
      videos_has_more_later)

end
